theory Spec2Isabelle
  imports Main "HOL-Library.Char_ord" "HOL-Library.List_Lexorder" "HOL-Library.AList"
begin

section \<open>JavaScript primitives used by the tagger\<close>

text \<open>
  Tag names, node ids and free text are JavaScript strings; they are modelled as
  \<^typ>\<open>string\<close>. The default \<open>Array.prototype.sort\<close> on strings compares code units
  lexicographically (a proper prefix comes first), which is the order of
  \<^typ>\<open>char list\<close> given by the two library imports.
\<close>

type_synonym TagName = string

type_synonym NodeId = string

text \<open>
  A JavaScript \<open>Set\<close> keeps its members in insertion order; it is modelled as a
  duplicate-free list. \<open>set_add\<close> is \<open>Set.prototype.add\<close>, \<open>set_delete\<close> is
  \<open>Set.prototype.delete\<close> (paired with the boolean it returns), \<open>new_Set\<close> is
  \<open>new Set(iterable)\<close>, and spreading a set back into an array is the list itself.
\<close>

definition set_add :: "'a \<Rightarrow> 'a list \<Rightarrow> 'a list" where
  "set_add x s = (if x \<in> set s then s else s @ [x])"

definition set_delete :: "'a \<Rightarrow> 'a list \<Rightarrow> bool \<times> 'a list" where
  "set_delete x s = (x \<in> set s, removeAll x s)"

definition new_Set :: "'a list \<Rightarrow> 'a list" where
  "new_Set xs = fold set_add xs []"

text \<open>\<open>[...new Set(tags)].sort()\<close>, the form in which \<open>setNodeTags\<close> stores a list.\<close>

definition normalizeTags :: "TagName list \<Rightarrow> TagName list" where
  "normalizeTags tags = sort (new_Set tags)"

text \<open>
  \<open>String.prototype.trim\<close> strips white space and line terminators at both ends;
  among the characters of \<^typ>\<open>char\<close> these are the codes 9 to 13, 32 and 160.
  \<open>split_on\<close> is \<open>String.prototype.split\<close> with a one-character separator, and
  \<open>parse_tag_list\<close> is the idiom
  \<open>input.split(',').map(t => t.trim()).filter(Boolean)\<close>.
\<close>

definition is_space :: "char \<Rightarrow> bool" where
  "is_space c = (of_char c \<in> {9, 10, 11, 12, 13, 32, 160 :: nat})"

definition trim :: "string \<Rightarrow> string" where
  "trim s = rev (dropWhile is_space (rev (dropWhile is_space s)))"

fun split_on :: "char \<Rightarrow> string \<Rightarrow> string list" where
  "split_on sep [] = [[]]"
| "split_on sep (c # cs) =
     (if c = sep then [] # split_on sep cs
      else (case split_on sep cs of
              [] \<Rightarrow> [[c]]
            | w # ws \<Rightarrow> (c # w) # ws))"

definition parse_tag_list :: "string \<Rightarrow> TagName list" where
  "parse_tag_list input = filter (\<lambda>t. t \<noteq> []) (map trim (split_on CHR '','' input))"

text \<open>\<open>Array.prototype.join\<close> and \<open>name.replaceAll('"', '""')\<close>.\<close>

fun join :: "string \<Rightarrow> string list \<Rightarrow> string" where
  "join sep [] = []"
| "join sep [x] = x"
| "join sep (x # y # ys) = x @ sep @ join sep (y # ys)"

definition dquote :: char where
  "dquote = CHR 0x22"

definition double_quotes :: "string \<Rightarrow> string" where
  "double_quotes s = concat (map (\<lambda>c. if c = dquote then [dquote, dquote] else [c]) s)"

section \<open>Data model\<close>

text \<open>
  \<open>interface TagMeta { color?: string; emoji?: string }\<close>; an absent field is
  \<open>None\<close>. \<open>spread a b\<close> is the object literal \<open>{ ...a, ...b }\<close>: a field of \<open>b\<close>
  overrides the same field of \<open>a\<close>.
\<close>

record TagMeta =
  color :: "string option"
  emoji :: "string option"

definition empty_meta :: TagMeta where
  "empty_meta = \<lparr>color = None, emoji = None\<rparr>"

definition spread :: "TagMeta \<Rightarrow> TagMeta \<Rightarrow> TagMeta" where
  "spread a b =
     \<lparr>color = (case color b of Some c \<Rightarrow> Some c | None \<Rightarrow> color a),
      emoji = (case emoji b of Some e \<Rightarrow> Some e | None \<Rightarrow> emoji a)\<rparr>"

text \<open>
  \<open>interface TagRegistry { [tag: TagName]: TagMeta }\<close>: the own keys of the
  registry object with their metadata. This is what \<open>JSON.stringify\<close> writes and
  what \<open>JSON.parse\<close> and an object spread read.
\<close>

type_synonym TagRegistry = "TagName \<rightharpoonup> TagMeta"

text \<open>Optional metadata, as a message carries it: the object given, or none and then \<open>{}\<close>.\<close>

definition or_empty :: "TagMeta option \<Rightarrow> TagMeta" where
  "or_empty m = (case m of None \<Rightarrow> empty_meta | Some x \<Rightarrow> x)"

subsection \<open>The registry as a JavaScript object\<close>

text \<open>
  The code reads the registry with \<open>reg[k]\<close> and writes it with \<open>reg[k] = v\<close>, and
  both go beyond the own keys. A read that finds no own key follows the prototype
  chain, which for an object made by \<open>JSON.parse\<close> or by an object literal ends
  in \<open>Object.prototype\<close>; its properties, by ECMAScript, are the twelve names
  below, eleven methods and the accessor \<open>__proto__\<close>. A write under a name other
  than \<open>__proto__\<close> makes or changes an own key. A write under \<open>__proto__\<close>, when
  the object has no own key of that name, calls the inherited setter: the object
  given becomes the prototype and no key is stored.
\<close>

definition object_prototype_names :: "string list" where
  "object_prototype_names =
     [''constructor'', ''__defineGetter__'', ''__defineSetter__'', ''hasOwnProperty'',
      ''__lookupGetter__'', ''__lookupSetter__'', ''isPrototypeOf'', ''propertyIsEnumerable'',
      ''toString'', ''valueOf'', ''__proto__'', ''toLocaleString'']"

text \<open>
  The enumerable own properties of a value, as an object spread copies them: those
  of a metadata object are its fields, those of a string are its characters under
  the decimal indices \<open>0\<close>, \<open>1\<close>, and so on.
\<close>

type_synonym props = "string \<rightharpoonup> string"

definition fields_of :: "TagMeta \<Rightarrow> props" where
  "fields_of m = (\<lambda>k. if k = ''color'' then color m else if k = ''emoji'' then emoji m else None)"

definition meta_of :: "props \<Rightarrow> TagMeta" where
  "meta_of f = \<lparr>color = f ''color'', emoji = f ''emoji''\<rparr>"

fun decimal :: "nat \<Rightarrow> string" where
  "decimal n =
     (if n < 10 then [char_of (48 + n)]
      else decimal (n div 10) @ [char_of (48 + n mod 10)])"

declare decimal.simps [simp del]

definition chars_of :: "string \<Rightarrow> props" where
  "chars_of s = map_of (zip (map decimal [0..<length s]) (map (\<lambda>c. [c]) s))"

text \<open>
  A registry object in the middle of a handler: its own keys, and its prototype,
  which is \<open>Object.prototype\<close> (\<open>None\<close>) until a write under \<open>__proto__\<close> puts a
  plain object in its place (\<open>Some\<close> of that object's properties).
\<close>

record registry_object =
  own :: TagRegistry
  prototype :: "props option"

definition plain_object :: "TagRegistry \<Rightarrow> registry_object" where
  "plain_object reg = \<lparr>own = reg, prototype = None\<rparr>"

text \<open>
  What \<open>reg[k]\<close> evaluates to: the metadata under an own key; else, when the
  prototype was replaced, that object for \<open>__proto__\<close> and the string under a key
  it has; else a method of \<open>Object.prototype\<close>, or \<open>Object.prototype\<close> itself for
  \<open>__proto__\<close>; else \<open>undefined\<close>.
\<close>

datatype looked =
    Undefined
  | Inherited_builtin
  | Own_meta TagMeta
  | Prototype_object props
  | Inherited_text string

definition lookup :: "registry_object \<Rightarrow> string \<Rightarrow> looked" where
  "lookup r k =
     (case own r k of
        Some m \<Rightarrow> Own_meta m
      | None \<Rightarrow>
          (case prototype r of
             None \<Rightarrow> if k \<in> set object_prototype_names then Inherited_builtin else Undefined
           | Some p \<Rightarrow>
               if k = ''__proto__'' then Prototype_object p
               else (case p k of
                       Some t \<Rightarrow> Inherited_text t
                     | None \<Rightarrow>
                         if k \<in> set object_prototype_names then Inherited_builtin
                         else Undefined)))"

text \<open>The value as a condition: objects and functions are truthy, a string unless empty.\<close>

fun truthy :: "looked \<Rightarrow> bool" where
  "truthy Undefined = False"
| "truthy Inherited_builtin = True"
| "truthy (Own_meta m) = True"
| "truthy (Prototype_object p) = True"
| "truthy (Inherited_text t) = (t \<noteq> [])"

text \<open>
  What \<open>...v\<close> copies from the value inside an object literal; a function,
  \<open>Object.prototype\<close> and \<open>undefined\<close> give nothing, and so does the \<open>{}\<close> of
  \<open>v || {}\<close>, which stands in for a falsy value only. The literal
  \<open>{ ...a, ...b }\<close> then has the properties \<open>a ++ b\<close>.
\<close>

fun spread_value :: "looked \<Rightarrow> props" where
  "spread_value Undefined = Map.empty"
| "spread_value Inherited_builtin = Map.empty"
| "spread_value (Own_meta m) = fields_of m"
| "spread_value (Prototype_object p) = p"
| "spread_value (Inherited_text t) = chars_of t"

text \<open>
  \<open>reg[k] = v\<close> for an object \<open>v\<close> with the properties given, and \<open>delete reg[k]\<close>.
  A value stored under an own key is read back as metadata; every such value is
  built from metadata alone, since none of the handlers writes an own key of an
  object whose prototype it has replaced.
\<close>

definition assign :: "string \<Rightarrow> props \<Rightarrow> registry_object \<Rightarrow> registry_object" where
  "assign k v r =
     (if k = ''__proto__'' \<and> own r k = None then r\<lparr>prototype := Some v\<rparr>
      else r\<lparr>own := (own r)(k \<mapsto> meta_of v)\<rparr>)"

definition delete_key :: "string \<Rightarrow> registry_object \<Rightarrow> registry_object" where
  "delete_key k r = r\<lparr>own := (own r)(k := None)\<rparr>"

text \<open>
  Plugin data is a string under a key. What the code does with it depends only on
  how \<open>JSON.parse\<close> treats it: the key was never set and the string is empty
  (\<open>Missing\<close>), \<open>JSON.parse\<close> throws a \<open>SyntaxError\<close> (\<open>Unparsable\<close>), or
  \<open>JSON.parse\<close> returns a value, which the code casts to the declared type
  (\<open>Parsed\<close>). \<open>JSON.stringify\<close> of a value writes a blob that parses back to it.
\<close>

datatype 'a blob = Missing | Unparsable | Parsed 'a

datatype js_error = SyntaxError

section \<open>The single-file controller (code.ts of the MVP)\<close>

text \<open>
  The document as the controller sees it: the registry blob of the document node,
  the tag blob and the name of every node of the document, the nodes of the
  current page in the order \<open>findAll\<close> enumerates them, and the current selection.
  The nodes of the other pages are the ids outside \<open>pageNodes\<close>.
\<close>

record doc =
  registryData :: "TagRegistry blob"
  nodeData :: "NodeId \<Rightarrow> TagName list blob"
  nodeName :: "NodeId \<Rightarrow> string"
  pageNodes :: "NodeId list"
  selection :: "NodeId list"

definition getRegistry :: "doc \<Rightarrow> TagRegistry" where
  "getRegistry d =
     (case registryData d of
        Missing \<Rightarrow> Map.empty
      | Unparsable \<Rightarrow> Map.empty
      | Parsed reg \<Rightarrow> reg)"

definition setRegistry :: "TagRegistry \<Rightarrow> doc \<Rightarrow> doc" where
  "setRegistry reg d = d\<lparr>registryData := Parsed reg\<rparr>"

definition getNodeTags :: "doc \<Rightarrow> NodeId \<Rightarrow> TagName list" where
  "getNodeTags d n =
     (case nodeData d n of
        Missing \<Rightarrow> []
      | Unparsable \<Rightarrow> []
      | Parsed tags \<Rightarrow> tags)"

definition setNodeTags :: "NodeId \<Rightarrow> TagName list \<Rightarrow> doc \<Rightarrow> doc" where
  "setNodeTags n tags d = d\<lparr>nodeData := (nodeData d)(n := Parsed (normalizeTags tags))\<rparr>"

text \<open>\<open>figma.currentPage.findAll(pred)\<close>.\<close>

definition findAll :: "(NodeId \<Rightarrow> bool) \<Rightarrow> doc \<Rightarrow> NodeId list" where
  "findAll pred d = filter pred (pageNodes d)"

subsection \<open>Operations on the selection\<close>

text \<open>
  \<open>addTagsToSelection\<close> and \<open>removeTagsFromSelection\<close>: one pass over the
  selection; the state of the loop is the document and the counter \<open>updated\<close>.
\<close>

definition add_step :: "TagName list \<Rightarrow> NodeId \<Rightarrow> doc \<times> nat \<Rightarrow> doc \<times> nat" where
  "add_step tags n = (\<lambda>(d, updated).
     let current = getNodeTags d n;
         next = new_Set (current @ tags)
     in (setNodeTags n next d, updated + 1))"

definition addTagsToSelection :: "TagName list \<Rightarrow> doc \<Rightarrow> doc \<times> nat" where
  "addTagsToSelection tags d =
     (let sel = selection d
      in if length sel = 0 then (d, 0) else fold (add_step tags) sel (d, 0))"

definition remove_step :: "TagName list \<Rightarrow> NodeId \<Rightarrow> doc \<times> nat \<Rightarrow> doc \<times> nat" where
  "remove_step tags n = (\<lambda>(d, updated).
     let current = getNodeTags d n;
         next = filter (\<lambda>t. \<not> (t \<in> set tags)) current
     in (setNodeTags n next d, updated + 1))"

definition removeTagsFromSelection :: "TagName list \<Rightarrow> doc \<Rightarrow> doc \<times> nat" where
  "removeTagsFromSelection tags d =
     (let sel = selection d
      in if length sel = 0 then (d, 0) else fold (remove_step tags) sel (d, 0))"

subsection \<open>Rename, merge, delete, create\<close>

text \<open>
  A loop \<open>for (const n of nodes) setNodeTags(n, f(getNodeTags(n)))\<close> over nodes
  found beforehand.
\<close>

definition rewrite_nodes :: "(TagName list \<Rightarrow> TagName list) \<Rightarrow> NodeId list \<Rightarrow> doc \<Rightarrow> doc" where
  "rewrite_nodes f nodes d = fold (\<lambda>n d'. setNodeTags n (f (getNodeTags d' n)) d') nodes d"

definition renameTagEverywhere :: "TagName \<Rightarrow> TagName \<Rightarrow> doc \<Rightarrow> doc \<times> nat" where
  "renameTagEverywhere from to d =
     (let reg = plain_object (getRegistry d);
          d1 = (if truthy (lookup reg from)
                then let reg1 = assign to (spread_value (lookup reg to) ++
                                           spread_value (lookup reg from)) reg;
                         reg2 = delete_key from reg1
                     in setRegistry (own reg2) d
                else d);
          nodes = findAll (\<lambda>n. from \<in> set (getNodeTags d1 n)) d1;
          d2 = rewrite_nodes (map (\<lambda>t. if t = from then to else t)) nodes d1
      in (d2, length nodes))"

text \<open>The first loop of \<open>mergeTags\<close>, over \<open>fromList\<close>, on the registry object.\<close>

definition merge_fold_step :: "TagName \<Rightarrow> TagName \<Rightarrow> registry_object \<Rightarrow> registry_object" where
  "merge_fold_step into f reg =
     (if truthy (lookup reg f)
      then delete_key f
             (assign into (spread_value (lookup reg into) ++ spread_value (lookup reg f)) reg)
      else reg)"

definition merge_registry :: "TagName \<Rightarrow> TagName list \<Rightarrow> TagRegistry \<Rightarrow> TagRegistry" where
  "merge_registry into fromList reg =
     own (fold (merge_fold_step into) fromList (plain_object reg))"

text \<open>The body of the second loop of \<open>mergeTags\<close>, for one node.\<close>

definition merge_delete_step :: "TagName \<Rightarrow> bool \<times> TagName list \<Rightarrow> bool \<times> TagName list" where
  "merge_delete_step f = (\<lambda>(changed, tags).
     let (deleted, tags') = set_delete f tags
     in (if deleted then True else changed, tags'))"

definition merge_node :: "TagName \<Rightarrow> TagName list \<Rightarrow> NodeId \<Rightarrow> doc \<Rightarrow> doc" where
  "merge_node into fromList n d =
     (let tags = new_Set (getNodeTags d n);
          (changed, tags1) = fold merge_delete_step fromList (False, tags);
          tags2 = set_add into tags1
      in if changed then setNodeTags n tags2 d else d)"

definition mergeTags :: "TagName \<Rightarrow> TagName list \<Rightarrow> doc \<Rightarrow> doc \<times> nat" where
  "mergeTags into fromList d =
     (let reg = merge_registry into fromList (getRegistry d);
          d1 = setRegistry reg d;
          nodes = findAll (\<lambda>n. list_ex (\<lambda>f. f \<in> set (getNodeTags d1 n)) fromList) d1;
          d2 = fold (merge_node into fromList) nodes d1
      in (d2, length nodes))"

definition findByTag :: "TagName \<Rightarrow> doc \<Rightarrow> NodeId list" where
  "findByTag tag d = findAll (\<lambda>n. tag \<in> set (getNodeTags d n)) d"

definition ensureTagInRegistry :: "TagName \<Rightarrow> TagMeta option \<Rightarrow> doc \<Rightarrow> doc" where
  "ensureTagInRegistry tag meta d =
     (let reg = plain_object (getRegistry d);
          reg1 = (if \<not> truthy (lookup reg tag) then assign tag Map.empty reg else reg);
          reg2 = (case meta of
                    None \<Rightarrow> reg1
                  | Some m \<Rightarrow> assign tag (spread_value (lookup reg1 tag) ++ fields_of m) reg1)
      in setRegistry (own reg2) d)"

text \<open>The body of \<open>case "delete-tag"\<close> of the message handler.\<close>

definition deleteTag :: "TagName \<Rightarrow> doc \<Rightarrow> doc" where
  "deleteTag tag d =
     (let reg = getRegistry d;
          d1 = setRegistry (reg(tag := None)) d;
          nodes = findAll (\<lambda>n. tag \<in> set (getNodeTags d1 n)) d1
      in rewrite_nodes (filter (\<lambda>t. t \<noteq> tag)) nodes d1)"

subsection \<open>Export\<close>

definition csv_row :: "doc \<Rightarrow> NodeId \<Rightarrow> string" where
  "csv_row d n =
     n @ '','' @ [dquote] @ double_quotes (nodeName d n) @ [dquote] @ '','' @
     [dquote] @ join ''|'' (getNodeTags d n) @ [dquote]"

definition exportCSV :: "doc \<Rightarrow> string" where
  "exportCSV d =
     join [CHR 0x0A]
       (''nodeId,nodeName,tags'' #
        map (csv_row d) (filter (\<lambda>n. length (getNodeTags d n) \<noteq> 0) (findAll (\<lambda>n. True) d)))"

subsection \<open>The message handler\<close>

text \<open>
  \<open>figma.ui.onmessage\<close>: the messages the controller understands, and what each
  does to the document. Notifications and the messages posted back carry no state.
\<close>

datatype msg =
    CreateTag TagName "TagMeta option"
  | DeleteTag TagName
  | AssignTagsToSelection "TagName list"
  | RemoveTagsFromSelection "TagName list"
  | RenameTag TagName TagName
  | MergeTags TagName "TagName list"
  | FilterByTag TagName
  | ExportCsv
  | UnknownMessage

fun onmessage :: "msg \<Rightarrow> doc \<Rightarrow> doc" where
  "onmessage (CreateTag tag meta) d = ensureTagInRegistry tag meta d"
| "onmessage (DeleteTag tag) d = deleteTag tag d"
| "onmessage (AssignTagsToSelection tags) d = fst (addTagsToSelection tags d)"
| "onmessage (RemoveTagsFromSelection tags) d = fst (removeTagsFromSelection tags d)"
| "onmessage (RenameTag from to) d = fst (renameTagEverywhere from to d)"
| "onmessage (MergeTags into fromList) d = fst (mergeTags into fromList d)"
| "onmessage (FilterByTag tag) d =
     (let nodes = findByTag tag d
      in if length nodes \<noteq> 0 then d\<lparr>selection := nodes\<rparr> else d)"
| "onmessage ExportCsv d = d"
| "onmessage UnknownMessage d = d"

text \<open>
  The rename button of the MVP's ui.ts: \<open>prompt\<close> returns the text typed or
  \<open>null\<close>; a message is posted only \<open>if (to && to !== t)\<close>.
\<close>

definition renameBtn_onclick :: "TagName \<Rightarrow> string option \<Rightarrow> msg option" where
  "renameBtn_onclick t answer =
     (case answer of
        None \<Rightarrow> None
      | Some to \<Rightarrow> (if to \<noteq> [] \<and> to \<noteq> t then Some (RenameTag t to) else None))"

definition rename_from_ui :: "TagName \<Rightarrow> string option \<Rightarrow> doc \<Rightarrow> doc" where
  "rename_from_ui t answer d =
     (case renameBtn_onclick t answer of
        None \<Rightarrow> d
      | Some m \<Rightarrow> onmessage m d)"

section \<open>The React view and its plugin code\<close>

text \<open>
  What a handler of the view does: it returns without a word, it shows an error
  toast and changes nothing, or it hands a new value to its change callback.
\<close>

datatype toast = TagAlreadyExists | NoNodesSelected | PleaseEnterTags | PleaseSpecifyTagsToMerge

datatype 'a handled = Returned | ToastError toast | Changed 'a

subsection \<open>Tag management (TagManager.tsx, CompactTagManager.tsx)\<close>

text \<open>
  \<open>handleAddTag\<close>, alike in both components; its inputs are the three form
  fields and the registry object it was rendered with. The object literal
  \<open>{ ...registry, [trimmedTag]: meta }\<close> is a new object with the own keys of the
  old one and the new own key.
\<close>

definition handleAddTag ::
  "string \<Rightarrow> string \<Rightarrow> string \<Rightarrow> registry_object \<Rightarrow> registry_object handled" where
  "handleAddTag newTag newEmoji newColor registry =
     (let trimmedTag = trim newTag
      in if trimmedTag = [] then Returned
         else if truthy (lookup registry trimmedTag) then ToastError TagAlreadyExists
         else
           let meta0 = empty_meta;
               meta1 = (if trim newEmoji \<noteq> [] then meta0\<lparr>emoji := Some (trim newEmoji)\<rparr> else meta0);
               meta2 = (if newColor \<noteq> ''#9ca3af'' then meta1\<lparr>color := Some newColor\<rparr> else meta1)
           in Changed (plain_object ((own registry)(trimmedTag \<mapsto> meta2))))"

text \<open>\<open>handleMergeTags\<close> of TagManager.tsx: the body of its \<open>forEach\<close>, then the handler.\<close>

definition view_merge_step :: "TagName \<Rightarrow> TagName \<Rightarrow> registry_object \<Rightarrow> registry_object" where
  "view_merge_step intoTag fromTag newRegistry =
     (if truthy (lookup newRegistry fromTag) \<and> fromTag \<noteq> intoTag
      then delete_key fromTag
             (assign intoTag (spread_value (lookup newRegistry fromTag) ++
                              spread_value (lookup newRegistry intoTag)) newRegistry)
      else newRegistry)"

definition handleMergeTags ::
  "string \<Rightarrow> string \<Rightarrow> registry_object \<Rightarrow>
   (registry_object \<times> TagName \<times> TagName list) handled" where
  "handleMergeTags into from registry =
     (let intoTag = trim into;
          fromTags = parse_tag_list from
      in if intoTag = [] \<or> length fromTags = 0 then ToastError PleaseSpecifyTagsToMerge
         else
           let newRegistry = plain_object (own registry);
               reg0 = (if \<not> truthy (lookup newRegistry intoTag)
                       then assign intoTag Map.empty newRegistry else newRegistry);
               reg1 = fold (view_merge_step intoTag) fromTags reg0
           in Changed (reg1, intoTag, fromTags))"

subsection \<open>Nodes of the view (types.ts, SelectionTagger, PluginApp)\<close>

record FigJamNode =
  node_id :: NodeId
  node_name :: string
  node_type :: string
  node_tags :: "TagName list"

text \<open>
  \<open>interface NodeRegistry { [id: string]: FigJamNode }\<close>, as the list of the
  object's own entries in the order \<open>Object.values\<close> enumerates them; \<open>nodes[id]\<close>
  is \<open>map_of\<close> and an assignment \<open>nodes[id] = node\<close> is \<open>AList.update\<close>. The ids are
  those the host gives its nodes, none of them a property name of
  \<open>Object.prototype\<close>.
\<close>

type_synonym NodeRegistry = "(NodeId \<times> FigJamNode) list"

datatype mode = Add | Remove

definition bulk_step :: "mode \<Rightarrow> TagName list \<Rightarrow> NodeId \<Rightarrow> NodeRegistry \<times> nat \<Rightarrow> NodeRegistry \<times> nat" where
  "bulk_step m tags nodeId = (\<lambda>(newNodes, updatedCount).
     case map_of newNodes nodeId of
       None \<Rightarrow> (newNodes, updatedCount)
     | Some node \<Rightarrow>
         let newTags = (case m of
                          Add \<Rightarrow> new_Set (node_tags node @ tags)
                        | Remove \<Rightarrow> filter (\<lambda>tag. \<not> (tag \<in> set tags)) (node_tags node))
         in (AList.update nodeId (node\<lparr>node_tags := newTags\<rparr>) newNodes, updatedCount + 1))"

definition handleBulkTagOperation ::
  "mode \<Rightarrow> string \<Rightarrow> NodeRegistry \<Rightarrow> NodeId list \<Rightarrow> (NodeRegistry \<times> nat) handled" where
  "handleBulkTagOperation m tagInput nodes selectedNodeIds =
     (if length selectedNodeIds = 0 then ToastError NoNodesSelected
      else
        let tags = parse_tag_list tagInput
        in if length tags = 0 then ToastError PleaseEnterTags
           else Changed (fold (bulk_step m tags) selectedNodeIds (nodes, 0)))"

text \<open>
  \<open>handleNodesChange\<close> of PluginApp: the \<open>set-node-tags\<close> messages it posts, in
  order, for the nodes that are new or whose tag list differs from the cached one.
\<close>

definition handleNodesChange :: "NodeRegistry \<Rightarrow> NodeRegistry \<Rightarrow> (NodeId \<times> TagName list) list" where
  "handleNodesChange nodes newNodes =
     map (\<lambda>node. (node_id node, node_tags node))
       (filter (\<lambda>node. case map_of nodes (node_id node) of
                          None \<Rightarrow> True
                        | Some oldNode \<Rightarrow> node_tags oldNode \<noteq> node_tags node)
          (map snd newNodes))"

subsection \<open>Export (plugin-storage.ts)\<close>

definition export_row :: "FigJamNode \<Rightarrow> string" where
  "export_row node =
     (let name = double_quotes (node_name node);
          tags = join ''|'' (node_tags node)
      in [dquote] @ node_id node @ [dquote] @ '','' @
         [dquote] @ name @ [dquote] @ '','' @
         [dquote] @ node_type node @ [dquote] @ '','' @
         [dquote] @ tags @ [dquote])"

definition exportToCSV :: "NodeRegistry \<Rightarrow> string" where
  "exportToCSV nodes =
     join [CHR 0x0A] (''nodeId,nodeName,nodeType,tags'' # map export_row (map snd nodes))"

subsection \<open>The plugin code of the React variant\<close>

text \<open>
  Its state: the registry blob of the document, the tag blob of every node, and
  the ids that \<open>figma.getNodeById\<close> finds. Its two loaders call \<open>JSON.parse\<close>
  outside any \<open>try\<close>, so the exception is a result of theirs.
\<close>

record plugin_doc =
  tagRegistryData :: "TagRegistry blob"
  nodeTagsData :: "NodeId \<Rightarrow> TagName list blob"
  documentNodes :: "NodeId list"

definition plugin_getTagRegistry :: "plugin_doc \<Rightarrow> js_error + TagRegistry" where
  "plugin_getTagRegistry sb =
     (case tagRegistryData sb of
        Missing \<Rightarrow> Inr Map.empty
      | Unparsable \<Rightarrow> Inl SyntaxError
      | Parsed reg \<Rightarrow> Inr reg)"

definition plugin_getNodeTags :: "plugin_doc \<Rightarrow> NodeId \<Rightarrow> js_error + TagName list" where
  "plugin_getNodeTags sb n =
     (case nodeTagsData sb n of
        Missing \<Rightarrow> Inr []
      | Unparsable \<Rightarrow> Inl SyntaxError
      | Parsed tags \<Rightarrow> Inr tags)"

text \<open>
  \<open>handleGetTagRegistry\<close>: the registry it posts, or the exception that leaves the
  message handler.
\<close>

definition plugin_handleGetTagRegistry :: "plugin_doc \<Rightarrow> js_error + TagRegistry" where
  "plugin_handleGetTagRegistry sb = plugin_getTagRegistry sb"

definition plugin_handleSetTagRegistry :: "TagRegistry \<Rightarrow> plugin_doc \<Rightarrow> plugin_doc" where
  "plugin_handleSetTagRegistry reg sb = sb\<lparr>tagRegistryData := Parsed reg\<rparr>"

text \<open>\<open>handleSetNodeTags\<close> stores the list as it receives it.\<close>

definition plugin_handleSetNodeTags :: "NodeId \<Rightarrow> TagName list \<Rightarrow> plugin_doc \<Rightarrow> plugin_doc" where
  "plugin_handleSetNodeTags nodeId tags sb =
     (if nodeId \<in> set (documentNodes sb)
      then sb\<lparr>nodeTagsData := (nodeTagsData sb)(nodeId := Parsed tags)\<rparr>
      else sb)"

text \<open>
  A bulk operation of the view, end to end: the handler computes the new nodes,
  \<open>handleNodesChange\<close> posts them, the plugin code stores each.
\<close>

definition bulk_operation_stored ::
  "mode \<Rightarrow> string \<Rightarrow> NodeRegistry \<Rightarrow> NodeId list \<Rightarrow> plugin_doc \<Rightarrow> plugin_doc" where
  "bulk_operation_stored m tagInput nodes selectedNodeIds sb =
     (case handleBulkTagOperation m tagInput nodes selectedNodeIds of
        Changed (newNodes, updatedCount) \<Rightarrow>
          fold (\<lambda>(nodeId, tags). plugin_handleSetNodeTags nodeId tags)
            (handleNodesChange nodes newNodes) sb
      | ToastError e \<Rightarrow> sb
      | Returned \<Rightarrow> sb)"

section \<open>Concrete documents\<close>

text \<open>Scenario B of the specification: one selected object, id 1, tagged a and b.\<close>

definition scenarioB :: doc where
  "scenarioB =
     \<lparr>registryData = Missing,
      nodeData = (\<lambda>_. Missing)(''1'' := Parsed [''a'', ''b'']),
      nodeName = (\<lambda>_. []),
      pageNodes = [''1''],
      selection = [''1'']\<rparr>"

text \<open>
  Scenario C of the specification: two objects on the page, tagged urgent and
  bug, urgent; both tags are registered.
\<close>

definition scenarioC :: doc where
  "scenarioC =
     \<lparr>registryData = Parsed [''urgent'' \<mapsto> \<lparr>color = Some ''#ff0000'', emoji = None\<rparr>,
                             ''bug'' \<mapsto> \<lparr>color = None, emoji = Some ''B''\<rparr>],
      nodeData = (\<lambda>_. Missing)(''1'' := Parsed [''urgent''], ''2'' := Parsed [''bug'', ''urgent'']),
      nodeName = (\<lambda>_. [])(''1'' := ''first'', ''2'' := ''second''),
      pageNodes = [''1'', ''2''],
      selection = []\<rparr>"

text \<open>Scenario C with a third object, tagged bug and urgent, on another page.\<close>

definition docOffPage :: doc where
  "docOffPage = scenarioC\<lparr>nodeData := (nodeData scenarioC)(''9'' := Parsed [''bug'', ''urgent''])\<rparr>"

text \<open>A registry with two coloured tags, a and b, and no objects.\<close>

definition docAB :: doc where
  "docAB =
     \<lparr>registryData = Parsed [''a'' \<mapsto> \<lparr>color = Some ''red'', emoji = None\<rparr>,
                             ''b'' \<mapsto> \<lparr>color = Some ''blue'', emoji = Some ''B''\<rparr>],
      nodeData = (\<lambda>_. Missing),
      nodeName = (\<lambda>_. []),
      pageNodes = [],
      selection = []\<rparr>"

text \<open>One sticky note tagged b, as the view caches it and as the plugin code stores it.\<close>

definition viewB :: NodeRegistry where
  "viewB =
     [(''1'', \<lparr>node_id = ''1'', node_name = ''Note'', node_type = ''sticky'', node_tags = [''b'']\<rparr>)]"

definition pluginB :: plugin_doc where
  "pluginB =
     \<lparr>tagRegistryData = Missing,
      nodeTagsData = (\<lambda>_. Missing)(''1'' := Parsed [''b'']),
      documentNodes = [''1'']\<rparr>"

text \<open>A page with one node, named n, whose only tag holds a double quote.\<close>

definition docQuote :: doc where
  \<open>docQuote =
     \<lparr>registryData = Missing,
      nodeData = (\<lambda>_. Missing)(''1'' := Parsed [''a"b'']),
      nodeName = (\<lambda>_. [])(''1'' := ''n''),
      pageNodes = [''1''],
      selection = []\<rparr>\<close>

text \<open>
  That every stored tag list is sorted and free of duplicates, read through
  \<open>getNodeTags\<close>.
\<close>

definition stored_normal_form :: "doc \<Rightarrow> bool" where
  "stored_normal_form d = (\<forall>n. sorted (getNodeTags d n) \<and> distinct (getNodeTags d n))"

section \<open>Facts about the primitives\<close>

lemma set_fold_set_add: "set (fold set_add xs acc) = set xs \<union> set acc"
  by (induction xs arbitrary: acc) (auto simp: set_add_def)

lemma distinct_fold_set_add: "distinct acc \<Longrightarrow> distinct (fold set_add xs acc)"
  by (induction xs arbitrary: acc) (auto simp: set_add_def)

lemma set_new_Set: "set (new_Set xs) = set xs"
  by (simp add: new_Set_def set_fold_set_add)

lemma distinct_new_Set: "distinct (new_Set xs)"
  by (simp add: new_Set_def distinct_fold_set_add)

lemma set_normalizeTags: "set (normalizeTags tags) = set tags"
  by (simp add: normalizeTags_def set_new_Set)

lemma sorted_normalizeTags: "sorted (normalizeTags tags)"
  by (simp add: normalizeTags_def)

lemma distinct_normalizeTags: "distinct (normalizeTags tags)"
  by (simp add: normalizeTags_def distinct_new_Set)

section \<open>The loops over the selection\<close>

lemma getNodeTags_setNodeTags:
  "getNodeTags (setNodeTags n tags d) m = (if m = n then normalizeTags tags else getNodeTags d m)"
  by (simp add: getNodeTags_def setNodeTags_def)

lemma add_step_apply:
  "add_step tags m (d, k) = (setNodeTags m (new_Set (getNodeTags d m @ tags)) d, Suc k)"
  by (simp add: add_step_def Let_def)

lemma remove_step_apply:
  "remove_step tags m (d, k) =
     (setNodeTags m (filter (\<lambda>t. \<not> (t \<in> set tags)) (getNodeTags d m)) d, Suc k)"
  by (simp add: remove_step_def Let_def)

lemma fold_add_step_count: "snd (fold (add_step tags) sel (d, k)) = k + length sel"
  by (induction sel arbitrary: d k) (simp_all add: add_step_apply)

lemma fold_remove_step_count: "snd (fold (remove_step tags) sel (d, k)) = k + length sel"
  by (induction sel arbitrary: d k) (simp_all add: remove_step_apply)

lemma fold_remove_step_tags:
  "set (getNodeTags (fst (fold (remove_step tags) sel (d, k))) n) =
     (if n \<in> set sel then set (getNodeTags d n) - set tags else set (getNodeTags d n))"
proof (induction sel arbitrary: d k)
  case Nil
  show ?case by simp
next
  case (Cons m sel)
  show ?case
    by (auto simp add: remove_step_apply Cons.IH getNodeTags_setNodeTags set_normalizeTags)
qed

lemma scenarioB_tags:
  "getNodeTags (fst (removeTagsFromSelection [''b'', ''c''] scenarioB)) ''1'' = [''a'']"
  by (simp add: scenarioB_def removeTagsFromSelection_def remove_step_def Let_def
      getNodeTags_def setNodeTags_def normalizeTags_def new_Set_def set_add_def)

lemma scenarioB_count: "snd (removeTagsFromSelection [''b'', ''c''] scenarioB) = 1"
  by (simp add: scenarioB_def removeTagsFromSelection_def remove_step_def Let_def)

text \<open>
  C9. \<open>removeTagsFromSelection\<close> takes the set difference: every selected object
  ends with exactly the tags it had that are not in the removal list, so a tag of
  the list that the object does not carry is ignored. In Scenario B the object
  tagged a and b, after removing b and c, is tagged a alone and the count is 1.
\<close>

theorem removeTags_set_difference:
  "(n \<in> set (selection d) \<longrightarrow>
      set (getNodeTags (fst (removeTagsFromSelection tags d)) n) =
      set (getNodeTags d n) - set tags)
   \<and> getNodeTags (fst (removeTagsFromSelection [''b'', ''c''] scenarioB)) ''1'' = [''a'']
   \<and> snd (removeTagsFromSelection [''b'', ''c''] scenarioB) = 1"
  using scenarioB_tags scenarioB_count
  by (auto simp add: removeTagsFromSelection_def Let_def fold_remove_step_tags)

theorem removeTags_set_difference_witness:
  "''1'' \<in> set (selection scenarioB) \<and>
   set (getNodeTags (fst (removeTagsFromSelection [''c''] scenarioB)) ''1'') =
   set (getNodeTags scenarioB ''1'') - set [''c'']"
  using removeTags_set_difference [of "''1''" scenarioB "[''c'']"]
  by (simp add: scenarioB_def)

text \<open>
  C10. The count returned by \<open>addTagsToSelection\<close> and by
  \<open>removeTagsFromSelection\<close> is the number of selected objects, whatever the
  operation does to their tags; it is 0 for the empty selection.
\<close>

theorem affected_count_is_selection_size:
  "snd (addTagsToSelection tags d) = length (selection d) \<and>
   snd (removeTagsFromSelection tags d) = length (selection d)"
  by (simp add: addTagsToSelection_def removeTagsFromSelection_def Let_def
      fold_add_step_count fold_remove_step_count)

section \<open>The loops over the nodes of the page\<close>

text \<open>
  The stored form depends only on the set of tags: it is the sorted enumeration
  of that set.
\<close>

lemma normalizeTags_sorted_list: "normalizeTags xs = sorted_list_of_set (set xs)"
proof -
  have "sorted (normalizeTags xs)" "distinct (normalizeTags xs)" "set (normalizeTags xs) = set xs"
    by (simp_all add: sorted_normalizeTags distinct_normalizeTags set_normalizeTags)
  then show ?thesis
    by (metis sorted_list_of_set.idem_if_sorted_distinct)
qed

lemma normalizeTags_cong: "set xs = set ys \<Longrightarrow> normalizeTags xs = normalizeTags ys"
  by (simp add: normalizeTags_sorted_list)

lemma getNodeTags_setRegistry: "getNodeTags (setRegistry reg d) n = getNodeTags d n"
  by (simp add: getNodeTags_def setRegistry_def)

lemma pageNodes_setRegistry: "pageNodes (setRegistry reg d) = pageNodes d"
  by (simp add: setRegistry_def)

lemma getRegistry_setRegistry: "getRegistry (setRegistry reg d) = reg"
  by (simp add: getRegistry_def setRegistry_def)

lemma rewrite_nodes_Nil: "rewrite_nodes f [] d = d"
  by (simp add: rewrite_nodes_def)

lemma rewrite_nodes_Cons:
  "rewrite_nodes f (n # ns) d = rewrite_nodes f ns (setNodeTags n (f (getNodeTags d n)) d)"
  by (simp add: rewrite_nodes_def)

text \<open>
  When writing \<open>f\<close> twice stores what writing it once stores, the loop leaves in
  every visited node the stored form of \<open>f\<close> of its old tags, however often the
  node occurs in the list.
\<close>

lemma rewrite_nodes_tags:
  assumes idem: "\<And>x. normalizeTags (f (normalizeTags (f x))) = normalizeTags (f x)"
  shows "getNodeTags (rewrite_nodes f ns d) m =
           (if m \<in> set ns then normalizeTags (f (getNodeTags d m)) else getNodeTags d m)"
proof (induction ns arbitrary: d)
  case Nil
  show ?case by (simp add: rewrite_nodes_Nil)
next
  case (Cons n ns)
  show ?case
    by (simp add: rewrite_nodes_Cons Cons.IH getNodeTags_setNodeTags idem)
qed

lemma rewrite_nodes_fields:
  "registryData (rewrite_nodes f ns d) = registryData d"
  "pageNodes (rewrite_nodes f ns d) = pageNodes d"
  "selection (rewrite_nodes f ns d) = selection d"
  "nodeName (rewrite_nodes f ns d) = nodeName d"
  by (induction ns arbitrary: d) (simp_all add: rewrite_nodes_Nil rewrite_nodes_Cons setNodeTags_def)

lemma count_list_distinct: "distinct xs \<Longrightarrow> x \<in> set xs \<Longrightarrow> count_list xs x = 1"
  by (induction xs) auto

section \<open>Rename\<close>

lemma rename_idem:
  "normalizeTags (map (\<lambda>t. if t = from then to else t)
      (normalizeTags (map (\<lambda>t. if t = from then to else t) x))) =
   normalizeTags (map (\<lambda>t. if t = from then to else t) x)"
proof -
  have "set (map (\<lambda>t. if t = from then to else t)
      (normalizeTags (map (\<lambda>t. if t = from then to else t) x))) =
      set (map (\<lambda>t. if t = from then to else t) x)"
    by (auto simp add: set_normalizeTags)
  then show ?thesis by (rule normalizeTags_cong)
qed

lemma renameTagEverywhere_tags:
  "getNodeTags (fst (renameTagEverywhere from to d)) n =
     (if n \<in> set (pageNodes d) \<and> from \<in> set (getNodeTags d n)
      then normalizeTags (map (\<lambda>t. if t = from then to else t) (getNodeTags d n))
      else getNodeTags d n)"
  by (auto simp add: renameTagEverywhere_def Let_def
      rewrite_nodes_tags [of "map (\<lambda>t. if t = from then to else t)", OF rename_idem]
      findAll_def getNodeTags_setRegistry pageNodes_setRegistry)

lemma rename_collapses_on_page:
  assumes "from \<noteq> to" "n \<in> set (pageNodes d)"
    "from \<in> set (getNodeTags d n)" "to \<in> set (getNodeTags d n)"
  shows "count_list (getNodeTags (fst (renameTagEverywhere from to d)) n) to = 1 \<and>
         from \<notin> set (getNodeTags (fst (renameTagEverywhere from to d)) n)"
proof -
  let ?r = "\<lambda>t. if t = from then to else t"
  have eq: "getNodeTags (fst (renameTagEverywhere from to d)) n =
            normalizeTags (map ?r (getNodeTags d n))"
    using assms by (simp add: renameTagEverywhere_tags)
  have "to \<in> set (normalizeTags (map ?r (getNodeTags d n)))"
    using assms by (auto simp add: set_normalizeTags)
  then have "count_list (normalizeTags (map ?r (getNodeTags d n))) to = 1"
    by (simp add: count_list_distinct distinct_normalizeTags)
  moreover have "from \<notin> set (normalizeTags (map ?r (getNodeTags d n)))"
    using assms by (auto simp add: set_normalizeTags)
  ultimately show ?thesis by (simp add: eq)
qed

lemma docOffPage_tags:
  "getNodeTags docOffPage ''9'' = [''bug'', ''urgent'']"
  "pageNodes docOffPage = [''1'', ''2'']"
  "getNodeTags docOffPage ''2'' = [''bug'', ''urgent'']"
  by (simp_all add: docOffPage_def scenarioC_def getNodeTags_def)

text \<open>
  C5, as stated for every object, fails: the rename visits the nodes of the current
  page only, so an object of another page tagged bug and urgent is still tagged
  bug after bug was renamed to urgent.
\<close>

theorem rename_leaves_other_pages:
  "''bug'' \<noteq> ''urgent'' \<and>
   ''bug'' \<in> set (getNodeTags docOffPage ''9'') \<and>
   ''urgent'' \<in> set (getNodeTags docOffPage ''9'') \<and>
   ''bug'' \<in> set (getNodeTags (fst (renameTagEverywhere ''bug'' ''urgent'' docOffPage)) ''9'')"
  by (simp add: renameTagEverywhere_tags docOffPage_tags)

text \<open>
  C5, amended. An object of the current page tagged with both \<open>from\<close> and \<open>to\<close>,
  where \<open>from \<noteq> to\<close>, is after \<open>renameTagEverywhere from to\<close> tagged with \<open>to\<close>
  exactly once and no longer with \<open>from\<close>; the tags of an object of another page
  are left as they are.
\<close>

theorem rename_collapses_duplicate_on_page:
  "(from \<noteq> to \<and> n \<in> set (pageNodes d) \<and>
    from \<in> set (getNodeTags d n) \<and> to \<in> set (getNodeTags d n) \<longrightarrow>
      count_list (getNodeTags (fst (renameTagEverywhere from to d)) n) to = 1 \<and>
      from \<notin> set (getNodeTags (fst (renameTagEverywhere from to d)) n)) \<and>
   (n \<notin> set (pageNodes d) \<longrightarrow>
      getNodeTags (fst (renameTagEverywhere from to d)) n = getNodeTags d n)"
  using rename_collapses_on_page [of "from" "to" n d]
  by (simp add: renameTagEverywhere_tags)

theorem rename_collapses_duplicate_on_page_witness:
  "''bug'' \<noteq> ''urgent'' \<and> ''2'' \<in> set (pageNodes docOffPage) \<and>
   ''bug'' \<in> set (getNodeTags docOffPage ''2'') \<and>
   ''urgent'' \<in> set (getNodeTags docOffPage ''2'') \<and>
   count_list (getNodeTags (fst (renameTagEverywhere ''bug'' ''urgent'' docOffPage)) ''2'')
     ''urgent'' = 1 \<and>
   ''bug'' \<notin> set (getNodeTags (fst (renameTagEverywhere ''bug'' ''urgent'' docOffPage)) ''2'') \<and>
   ''9'' \<notin> set (pageNodes docOffPage) \<and>
   getNodeTags (fst (renameTagEverywhere ''bug'' ''urgent'' docOffPage)) ''9'' =
     getNodeTags docOffPage ''9''"
  using rename_collapses_duplicate_on_page [of "''bug''" "''urgent''" "''2''" docOffPage]
    rename_collapses_duplicate_on_page [of "''bug''" "''urgent''" "''9''" docOffPage]
  by (simp add: docOffPage_tags)

section \<open>Delete\<close>

lemma filter_idem:
  "normalizeTags (filter (\<lambda>t. t \<noteq> tag) (normalizeTags (filter (\<lambda>t. t \<noteq> tag) x))) =
   normalizeTags (filter (\<lambda>t. t \<noteq> tag) x)"
  by (rule normalizeTags_cong) (auto simp add: set_normalizeTags)

lemma deleteTag_tags:
  "getNodeTags (deleteTag tag d) n =
     (if n \<in> set (pageNodes d) \<and> tag \<in> set (getNodeTags d n)
      then normalizeTags (filter (\<lambda>t. t \<noteq> tag) (getNodeTags d n))
      else getNodeTags d n)"
  by (auto simp add: deleteTag_def Let_def
      rewrite_nodes_tags [of "filter (\<lambda>t. t \<noteq> tag)", OF filter_idem]
      findAll_def getNodeTags_setRegistry pageNodes_setRegistry)

lemma deleteTag_registryData:
  "registryData (deleteTag tag d) = Parsed ((getRegistry d)(tag := None))"
  by (simp add: deleteTag_def Let_def rewrite_nodes_fields setRegistry_def)

lemma deleteTag_registry: "getRegistry (deleteTag tag d) = (getRegistry d)(tag := None)"
  by (simp add: getRegistry_def deleteTag_registryData)

lemma deleteTag_pageNodes: "pageNodes (deleteTag tag d) = pageNodes d"
  by (simp add: deleteTag_def Let_def rewrite_nodes_fields setRegistry_def)

lemma deleteTag_strips:
  "n \<in> set (pageNodes d) \<Longrightarrow> tag \<notin> set (getNodeTags (deleteTag tag d) n)"
  by (simp add: deleteTag_tags set_normalizeTags)

lemma deleteTag_idem: "deleteTag tag (deleteTag tag d) = deleteTag tag d"
proof -
  let ?d = "deleteTag tag d"
  have nodes: "findAll (\<lambda>n. tag \<in> set (getNodeTags (setRegistry ((getRegistry ?d)(tag := None)) ?d) n))
                 (setRegistry ((getRegistry ?d)(tag := None)) ?d) = []"
    by (simp add: findAll_def getNodeTags_setRegistry pageNodes_setRegistry
        deleteTag_pageNodes deleteTag_strips)
  have "deleteTag tag ?d = setRegistry ((getRegistry ?d)(tag := None)) ?d"
    unfolding deleteTag_def [of tag ?d] Let_def nodes rewrite_nodes_Nil ..
  also have "\<dots> = ?d"
    by (simp add: setRegistry_def deleteTag_registry deleteTag_registryData [symmetric])
  finally show ?thesis .
qed

lemma deleteTag_other_pages:
  "n \<notin> set (pageNodes d) \<Longrightarrow> getNodeTags (deleteTag tag d) n = getNodeTags d n"
  by (simp add: deleteTag_tags)

text \<open>
  C6, as stated, fails in its last part: the cascade visits the nodes of the
  current page only, so an object of another page still carries urgent after
  urgent was deleted and its registry entry is gone.
\<close>

theorem deleteTag_leaves_other_pages:
  "''urgent'' \<in> set (getNodeTags (deleteTag ''urgent'' docOffPage) ''9'') \<and>
   getRegistry (deleteTag ''urgent'' docOffPage) ''urgent'' = None"
  by (simp add: deleteTag_tags deleteTag_registry docOffPage_tags)

text \<open>
  C6, amended. Deleting a tag twice gives the document that deleting it once gives;
  deleting a tag that the registry does not hold leaves the registry as it was;
  after the deletion no object of the current page carries the tag; the tags of an
  object of another page are left as they are.
\<close>

theorem deleteTag_idempotent_on_page:
  "deleteTag t (deleteTag t d) = deleteTag t d \<and>
   (t \<notin> dom (getRegistry d) \<longrightarrow> getRegistry (deleteTag t d) = getRegistry d) \<and>
   (n \<in> set (pageNodes d) \<longrightarrow> t \<notin> set (getNodeTags (deleteTag t d) n)) \<and>
   (n \<notin> set (pageNodes d) \<longrightarrow> getNodeTags (deleteTag t d) n = getNodeTags d n)"
  by (auto simp add: deleteTag_idem deleteTag_registry deleteTag_strips deleteTag_other_pages)

theorem deleteTag_idempotent_on_page_witness:
  "''triage'' \<notin> dom (getRegistry docOffPage) \<and>
   getRegistry (deleteTag ''triage'' docOffPage) = getRegistry docOffPage \<and>
   ''2'' \<in> set (pageNodes docOffPage) \<and>
   ''urgent'' \<notin> set (getNodeTags (deleteTag ''urgent'' docOffPage) ''2'') \<and>
   ''9'' \<notin> set (pageNodes docOffPage) \<and>
   getNodeTags (deleteTag ''urgent'' docOffPage) ''9'' = getNodeTags docOffPage ''9'' \<and>
   deleteTag ''urgent'' (deleteTag ''urgent'' docOffPage) = deleteTag ''urgent'' docOffPage"
  using deleteTag_idempotent_on_page [of "''triage''" docOffPage "''2''"]
    deleteTag_idempotent_on_page [of "''urgent''" docOffPage "''2''"]
    deleteTag_idempotent_on_page [of "''urgent''" docOffPage "''9''"]
  by (simp add: docOffPage_tags docOffPage_def scenarioC_def getRegistry_def)

section \<open>Facts about registry objects\<close>

lemma meta_of_empty: "meta_of Map.empty = empty_meta"
  by (simp add: meta_of_def empty_meta_def)

lemma meta_of_fields_of: "meta_of (fields_of m) = m"
  by (simp add: meta_of_def fields_of_def)

lemma meta_of_spread: "meta_of (fields_of a ++ fields_of b) = spread a b"
  by (simp add: meta_of_def fields_of_def spread_def map_add_def split: option.splits)

lemma spread_empty_meta: "spread empty_meta m = m"
  by (cases m) (simp add: spread_def empty_meta_def split: option.splits)

lemma fields_of_empty_meta: "fields_of empty_meta = Map.empty"
  by (auto simp add: fields_of_def empty_meta_def)

lemma in_object_prototype_names:
  "k \<in> set object_prototype_names \<Longrightarrow> k \<noteq> []"
  by (auto simp add: object_prototype_names_def)

lemma proto_in_object_prototype_names: "''__proto__'' \<in> set object_prototype_names"
  by (simp add: object_prototype_names_def)

lemma lookup_own: "own r k = Some m \<Longrightarrow> lookup r k = Own_meta m"
  by (simp add: lookup_def)

lemma lookup_plain:
  "lookup (plain_object reg) k =
     (case reg k of
        Some m \<Rightarrow> Own_meta m
      | None \<Rightarrow> if k \<in> set object_prototype_names then Inherited_builtin else Undefined)"
  by (simp add: lookup_def plain_object_def split: option.splits)

lemma truthy_lookup_own: "\<not> truthy (lookup r k) \<Longrightarrow> own r k = None"
  by (cases "own r k") (simp_all add: lookup_def)

lemma own_assign_other: "j \<noteq> k \<Longrightarrow> own (assign k v r) j = own r j"
  by (simp add: assign_def)

lemma own_assign_present: "own r k = Some m \<Longrightarrow> own (assign k v r) k = Some (meta_of v)"
  by (simp add: assign_def)

lemma own_assign_ordinary: "k \<noteq> ''__proto__'' \<Longrightarrow> own (assign k v r) = (own r)(k \<mapsto> meta_of v)"
  by (simp add: assign_def)

lemma own_assign_proto: "own r ''__proto__'' = None \<Longrightarrow> own (assign ''__proto__'' v r) = own r"
  by (simp add: assign_def)

lemma own_assign_stored:
  "k \<noteq> ''__proto__'' \<or> own r k \<noteq> None \<Longrightarrow> own (assign k v r) = (own r)(k \<mapsto> meta_of v)"
  by (auto simp add: assign_def)

lemma own_plain_object: "own (plain_object reg) = reg"
  by (simp add: plain_object_def)

lemma own_delete_key: "own (delete_key k r) = (own r)(k := None)"
  by (simp add: delete_key_def)

section \<open>Merge\<close>

lemma merge_node_registryData: "registryData (merge_node into fromList n d) = registryData d"
  by (simp add: merge_node_def Let_def setNodeTags_def split: prod.splits)

lemma fold_merge_node_registryData:
  "registryData (fold (merge_node into fromList) ns d) = registryData d"
  by (induction ns arbitrary: d) (simp_all add: merge_node_registryData)

lemma mergeTags_registry:
  "getRegistry (fst (mergeTags into fromList d)) = merge_registry into fromList (getRegistry d)"
  by (simp add: mergeTags_def Let_def getRegistry_def [of "fold f ns d" for f ns d]
      fold_merge_node_registryData setRegistry_def)

text \<open>What the controller's fold does keep of the rule: every source other than the target is gone.\<close>

lemma merge_fold_step_absent:
  "own r f = None \<Longrightarrow> f \<noteq> into \<Longrightarrow> own (merge_fold_step into g r) f = None"
  by (simp add: merge_fold_step_def own_delete_key own_assign_other)

lemma merge_fold_absent:
  "own r f = None \<Longrightarrow> f \<noteq> into \<Longrightarrow> own (fold (merge_fold_step into) gs r) f = None"
  by (induction gs arbitrary: r) (simp_all add: merge_fold_step_absent)

lemma merge_fold_step_removes:
  "f \<noteq> into \<Longrightarrow> own (merge_fold_step into f r) f = None"
  by (auto simp add: merge_fold_step_def own_delete_key dest: truthy_lookup_own)

lemma merge_fold_removes_sources:
  "f \<in> set fromList \<Longrightarrow> f \<noteq> into \<Longrightarrow>
   own (fold (merge_fold_step into) fromList r) f = None"
proof (induction fromList arbitrary: r)
  case Nil
  then show ?case by simp
next
  case (Cons g gs)
  show ?case
  proof (cases "g = f")
    case True
    then show ?thesis
      using Cons.prems(2) merge_fold_absent [of "merge_fold_step into f r" f into gs]
      by (simp add: merge_fold_step_removes)
  next
    case False
    then show ?thesis
      using Cons.IH [of "merge_fold_step into g r"] Cons.prems by simp
  qed
qed

lemma merge_registry_removes_sources:
  "f \<in> set fromList \<Longrightarrow> f \<noteq> into \<Longrightarrow> merge_registry into fromList reg f = None"
  by (simp add: merge_registry_def merge_fold_removes_sources)

text \<open>
  The fold of \<open>mergeTags\<close> at names that the registry object inherits: a source
  named like a method of \<open>Object.prototype\<close> counts as found and makes the target's
  entry; a target named \<open>__proto__\<close> receives the prototype and no key, while the
  sources that are keys are deleted.
\<close>

lemma merge_registry_inherited_source:
  "merge_registry ''x'' [''toString''] Map.empty = [''x'' \<mapsto> empty_meta]"
  by (simp add: merge_registry_def merge_fold_step_def plain_object_def lookup_def assign_def
      delete_key_def meta_of_empty object_prototype_names_def)

lemma merge_registry_into_proto:
  "merge_registry ''__proto__'' [''b'', ''color''] (getRegistry docAB) =
     (getRegistry docAB)(''b'' := None)"
  by (simp add: merge_registry_def merge_fold_step_def plain_object_def lookup_def assign_def
      delete_key_def docAB_def getRegistry_def fields_of_def map_add_def chars_of_def
      object_prototype_names_def)

text \<open>
  The view's \<open>handleMergeTags\<close> keeps the target's entry and every field of it that
  was set.
\<close>

lemma view_merge_step_into:
  "own r into = Some m \<Longrightarrow>
   \<exists>m'. own (view_merge_step into f r) into = Some m' \<and>
        (color m \<noteq> None \<longrightarrow> color m' = color m) \<and>
        (emoji m \<noteq> None \<longrightarrow> emoji m' = emoji m)"
  by (auto simp add: view_merge_step_def own_delete_key assign_def lookup_own meta_of_def
      fields_of_def map_add_def)

lemma view_merge_fold_into:
  "own r into = Some m \<Longrightarrow>
   \<exists>m'. own (fold (view_merge_step into) fs r) into = Some m' \<and>
        (color m \<noteq> None \<longrightarrow> color m' = color m) \<and>
        (emoji m \<noteq> None \<longrightarrow> emoji m' = emoji m)"
proof (induction fs arbitrary: r m)
  case Nil
  then show ?case by simp
next
  case (Cons f fs)
  obtain m1 where m1: "own (view_merge_step into f r) into = Some m1"
    "color m \<noteq> None \<longrightarrow> color m1 = color m" "emoji m \<noteq> None \<longrightarrow> emoji m1 = emoji m"
    using view_merge_step_into [of r into m f] Cons.prems by blast
  obtain m2 where m2: "own (fold (view_merge_step into) fs (view_merge_step into f r)) into = Some m2"
    "color m1 \<noteq> None \<longrightarrow> color m2 = color m1" "emoji m1 \<noteq> None \<longrightarrow> emoji m2 = emoji m1"
    using Cons.IH [of "view_merge_step into f r" m1] m1(1) by blast
  show ?case using m1 m2 by auto
qed

lemma view_merge_on_docAB:
  "handleMergeTags ''a'' ''b, a'' (plain_object (getRegistry docAB)) = Changed (r, i, f) \<Longrightarrow>
   own r ''a'' = Some \<lparr>color = Some ''red'', emoji = Some ''B''\<rparr> \<and> own r ''b'' = None"
  by (auto simp add: docAB_def handleMergeTags_def Let_def getRegistry_def view_merge_step_def
      plain_object_def lookup_def assign_def delete_key_def meta_of_def fields_of_def
      map_add_def object_prototype_names_def parse_tag_list_def trim_def is_space_def)

text \<open>
  C1. The claim asks that after \<open>mergeTags(into, fromList)\<close> the target is in the
  registry whenever it or a source was, and that a field of the target that was
  set keeps its value. The controller's \<open>mergeTags\<close> does neither: merging b into
  a, where a is red and b is blue, leaves a blue, and merging b and a into a
  removes a from the registry.
\<close>

theorem mergeTags_source_overrides_target:
  "getRegistry docAB ''a'' = Some \<lparr>color = Some ''red'', emoji = None\<rparr> \<and>
   getRegistry (fst (mergeTags ''a'' [''b''] docAB)) ''a'' =
     Some \<lparr>color = Some ''blue'', emoji = Some ''B''\<rparr> \<and>
   getRegistry (fst (mergeTags ''a'' [''b'', ''a''] docAB)) ''a'' = None"
  unfolding mergeTags_registry
  by (simp add: docAB_def getRegistry_def merge_registry_def merge_fold_step_def
      plain_object_def lookup_def assign_def delete_key_def meta_of_def fields_of_def
      map_add_def)

section \<open>Create\<close>

lemma ensure_absent:
  assumes "getRegistry d tag = None" "tag \<notin> set object_prototype_names"
  shows "getRegistry (ensureTagInRegistry tag meta d) = (getRegistry d)(tag \<mapsto> or_empty meta)"
proof -
  let ?r = "plain_object (getRegistry d)"
  let ?r1 = "assign tag Map.empty ?r"
  have p: "tag \<noteq> ''__proto__''"
    using assms(2) proto_in_object_prototype_names by blast
  have l: "lookup ?r tag = Undefined"
    using assms by (simp add: lookup_plain)
  have o1: "own ?r1 = (getRegistry d)(tag \<mapsto> empty_meta)"
    using p by (simp add: own_assign_stored own_plain_object meta_of_empty)
  have l1: "lookup ?r1 tag = Own_meta empty_meta"
    by (simp add: lookup_own o1)
  show ?thesis
  proof (cases meta)
    case None
    then show ?thesis
      by (simp add: ensureTagInRegistry_def Let_def l o1 getRegistry_setRegistry or_empty_def)
  next
    case (Some m)
    have "own (assign tag (fields_of empty_meta ++ fields_of m) ?r1) =
          (getRegistry d)(tag \<mapsto> m)"
      using p by (simp add: own_assign_stored o1 meta_of_spread spread_empty_meta)
    then show ?thesis
      by (simp add: ensureTagInRegistry_def Let_def l l1 Some getRegistry_setRegistry or_empty_def)
  qed
qed

lemma ensure_present:
  assumes "getRegistry d tag = Some m0"
  shows "getRegistry (ensureTagInRegistry tag meta d) =
           (getRegistry d)(tag \<mapsto> (case meta of None \<Rightarrow> m0 | Some m \<Rightarrow> spread m0 m))"
proof -
  let ?r = "plain_object (getRegistry d)"
  have l: "lookup ?r tag = Own_meta m0"
    using assms by (simp add: lookup_plain)
  show ?thesis
  proof (cases meta)
    case None
    have "(getRegistry d)(tag \<mapsto> m0) = getRegistry d"
      using assms by (rule map_upd_triv)
    then show ?thesis
      by (simp add: ensureTagInRegistry_def Let_def l None getRegistry_setRegistry own_plain_object)
  next
    case (Some m)
    have "own (assign tag (fields_of m0 ++ fields_of m) ?r) = (getRegistry d)(tag \<mapsto> spread m0 m)"
      using assms by (simp add: own_assign_stored own_plain_object meta_of_spread)
    then show ?thesis
      by (simp add: ensureTagInRegistry_def Let_def l Some getRegistry_setRegistry)
  qed
qed

lemma ensure_nodeData: "nodeData (ensureTagInRegistry tag meta d) = nodeData d"
  by (simp add: ensureTagInRegistry_def Let_def setRegistry_def)

text \<open>
  At a name that the registry object inherits, \<open>ensureTagInRegistry\<close> takes the tag
  for present: without metadata it stores nothing, and under \<open>__proto__\<close> it never
  stores a key.
\<close>

lemma lookup_inherited:
  "reg tag = None \<Longrightarrow> tag \<in> set object_prototype_names \<Longrightarrow>
   lookup (plain_object reg) tag = Inherited_builtin"
  by (simp add: lookup_plain)

lemma ensure_inherited_name_without_meta:
  "getRegistry d tag = None \<Longrightarrow> tag \<in> set object_prototype_names \<Longrightarrow>
   getRegistry (ensureTagInRegistry tag None d) = getRegistry d"
  by (simp add: ensureTagInRegistry_def Let_def lookup_inherited getRegistry_setRegistry
      own_plain_object)

lemma ensure_proto_stores_no_key:
  assumes "getRegistry d ''__proto__'' = None"
  shows "getRegistry (ensureTagInRegistry ''__proto__'' meta d) = getRegistry d"
proof -
  have l: "lookup (plain_object (getRegistry d)) ''__proto__'' = Inherited_builtin"
    using assms by (simp add: lookup_inherited proto_in_object_prototype_names)
  have "own (assign ''__proto__'' v (plain_object (getRegistry d))) = getRegistry d" for v
    using assms by (simp add: own_assign_proto own_plain_object)
  then show ?thesis
    by (cases meta)
      (simp_all add: ensureTagInRegistry_def Let_def l getRegistry_setRegistry own_plain_object)
qed

lemma ensure_inherited_name_with_meta:
  assumes "getRegistry d tag = None" "tag \<in> set object_prototype_names" "tag \<noteq> ''__proto__''"
  shows "getRegistry (ensureTagInRegistry tag (Some m) d) = (getRegistry d)(tag \<mapsto> m)"
proof -
  have l: "lookup (plain_object (getRegistry d)) tag = Inherited_builtin"
    using assms by (simp add: lookup_inherited)
  have "own (assign tag (Map.empty ++ fields_of m) (plain_object (getRegistry d))) =
        (getRegistry d)(tag \<mapsto> m)"
    using assms(3) by (simp add: own_assign_stored own_plain_object meta_of_fields_of)
  then show ?thesis
    by (simp add: ensureTagInRegistry_def Let_def l getRegistry_setRegistry)
qed

lemma handleAddTag_duplicate:
  "trim newTag \<noteq> [] \<Longrightarrow> own registry (trim newTag) \<noteq> None \<Longrightarrow>
   handleAddTag newTag newEmoji newColor registry = ToastError TagAlreadyExists"
  by (auto simp add: handleAddTag_def Let_def lookup_own)

lemma handleAddTag_new:
  "trim newTag \<noteq> [] \<Longrightarrow> \<not> truthy (lookup registry (trim newTag)) \<Longrightarrow>
   handleAddTag newTag newEmoji newColor registry =
     Changed (plain_object ((own registry)(trim newTag \<mapsto>
       \<lparr>color = (if newColor \<noteq> ''#9ca3af'' then Some newColor else None),
        emoji = (if trim newEmoji \<noteq> [] then Some (trim newEmoji) else None)\<rparr>)))"
  by (simp add: handleAddTag_def Let_def empty_meta_def)

text \<open>The view takes a name that the registry object inherits for a duplicate.\<close>

lemma handleAddTag_inherited_name:
  "prototype registry = None \<Longrightarrow> trim newTag \<in> set object_prototype_names \<Longrightarrow>
   handleAddTag newTag newEmoji newColor registry = ToastError TagAlreadyExists"
  by (auto simp add: handleAddTag_def Let_def lookup_def in_object_prototype_names
      split: option.splits)

text \<open>
  C2, as stated, fails on the controller: creating a, which the registry holds
  with the colour red, with the colour blue reports nothing and changes the
  registry.
\<close>

theorem ensureTagInRegistry_overwrites_existing:
  "getRegistry docAB ''a'' \<noteq> None \<and>
   getRegistry (ensureTagInRegistry ''a'' (Some \<lparr>color = Some ''blue'', emoji = None\<rparr>) docAB)
     \<noteq> getRegistry docAB"
proof -
  have a: "getRegistry docAB ''a'' = Some \<lparr>color = Some ''red'', emoji = None\<rparr>"
    by (simp add: docAB_def getRegistry_def)
  have "getRegistry (ensureTagInRegistry ''a'' (Some \<lparr>color = Some ''blue'', emoji = None\<rparr>) docAB) ''a''
        \<noteq> getRegistry docAB ''a''"
    by (simp add: ensure_present [OF a] a spread_def)
  then have "getRegistry (ensureTagInRegistry ''a'' (Some \<lparr>color = Some ''blue'', emoji = None\<rparr>) docAB)
        \<noteq> getRegistry docAB"
    by auto
  then show ?thesis using a by simp
qed

text \<open>
  C2, amended. In the single-file controller, creating a tag never fails:
  \<open>ensureTagInRegistry\<close> inserts a name that is not present, and is not a property
  name of \<open>Object.prototype\<close>, with the metadata given, or with empty metadata; for
  a name that is present it keeps the entry and lays the given fields over it; it
  leaves the tags of every object alone. In the React variant the check for a
  duplicate is the view's: \<open>handleAddTag\<close>, on the trimmed name, shows the error and
  changes nothing when the name is present, and inserts the entry when looking the
  name up in the registry object finds nothing: the name is no key of it and is
  not inherited through its prototype chain.
\<close>

theorem createTag_upsert_and_view_check:
  "(getRegistry d tag = None \<and> tag \<notin> set object_prototype_names \<longrightarrow>
      getRegistry (ensureTagInRegistry tag meta d) = (getRegistry d)(tag \<mapsto> or_empty meta)) \<and>
   (getRegistry d tag = Some m0 \<longrightarrow>
      getRegistry (ensureTagInRegistry tag meta d) =
        (getRegistry d)(tag \<mapsto> (case meta of None \<Rightarrow> m0 | Some m \<Rightarrow> spread m0 m))) \<and>
   nodeData (ensureTagInRegistry tag meta d) = nodeData d \<and>
   (trim newTag \<noteq> [] \<and> own registry (trim newTag) \<noteq> None \<longrightarrow>
      handleAddTag newTag newEmoji newColor registry = ToastError TagAlreadyExists) \<and>
   (trim newTag \<noteq> [] \<and> lookup registry (trim newTag) = Undefined \<longrightarrow>
      handleAddTag newTag newEmoji newColor registry =
        Changed (plain_object ((own registry)(trim newTag \<mapsto>
          \<lparr>color = (if newColor \<noteq> ''#9ca3af'' then Some newColor else None),
           emoji = (if trim newEmoji \<noteq> [] then Some (trim newEmoji) else None)\<rparr>))))"
  using ensure_absent [of d tag meta] ensure_present [of d tag m0 meta]
    ensure_nodeData [of tag meta d]
    handleAddTag_duplicate [of newTag registry newEmoji newColor]
    handleAddTag_new [of newTag registry newEmoji newColor]
  by auto

theorem createTag_upsert_and_view_check_witness:
  "getRegistry docAB ''c'' = None \<and> ''c'' \<notin> set object_prototype_names \<and>
   getRegistry (ensureTagInRegistry ''c'' None docAB) = (getRegistry docAB)(''c'' \<mapsto> empty_meta) \<and>
   getRegistry docAB ''a'' = Some \<lparr>color = Some ''red'', emoji = None\<rparr> \<and>
   getRegistry (ensureTagInRegistry ''a'' (Some \<lparr>color = None, emoji = Some ''A''\<rparr>) docAB) =
     (getRegistry docAB)(''a'' \<mapsto> \<lparr>color = Some ''red'', emoji = Some ''A''\<rparr>) \<and>
   trim '' a '' \<noteq> [] \<and> own (plain_object (getRegistry docAB)) (trim '' a '') \<noteq> None \<and>
   handleAddTag '' a '' [] ''#9ca3af'' (plain_object (getRegistry docAB)) =
     ToastError TagAlreadyExists \<and>
   trim ''c'' \<noteq> [] \<and> lookup (plain_object (getRegistry docAB)) (trim ''c'') = Undefined \<and>
   handleAddTag ''c'' [] ''#9ca3af'' (plain_object (getRegistry docAB)) =
     Changed (plain_object ((getRegistry docAB)(''c'' \<mapsto> \<lparr>color = None, emoji = None\<rparr>)))"
proof -
  have t1: "trim '' a '' = ''a''" and t2: "trim ''c'' = ''c''" and t3: "trim [] = []"
    by (simp_all add: trim_def is_space_def)
  have r1: "getRegistry docAB ''c'' = None"
    and r2: "getRegistry docAB ''a'' = Some \<lparr>color = Some ''red'', emoji = None\<rparr>"
    by (simp_all add: docAB_def getRegistry_def)
  have c: "''c'' \<notin> set object_prototype_names"
    by (simp add: object_prototype_names_def)
  have l: "lookup (plain_object (getRegistry docAB)) ''c'' = Undefined"
    by (simp add: lookup_plain r1 c)
  have o: "own (plain_object (getRegistry docAB)) = getRegistry docAB"
    by (simp add: plain_object_def)
  show ?thesis
    using createTag_upsert_and_view_check
        [of docAB "''c''" None "\<lparr>color = Some ''red'', emoji = None\<rparr>" "''c''"
          "plain_object (getRegistry docAB)" "[]" "''#9ca3af''"]
      createTag_upsert_and_view_check
        [of docAB "''a''" "Some \<lparr>color = None, emoji = Some ''A''\<rparr>"
          "\<lparr>color = Some ''red'', emoji = None\<rparr>" "'' a ''"
          "plain_object (getRegistry docAB)" "[]" "''#9ca3af''"]
    by (simp add: t1 t2 t3 r1 r2 c l o or_empty_def spread_def)
qed

section \<open>Rename of a tag to itself\<close>

text \<open>
  C4, as stated, fails on the controller's function: \<open>renameTagEverywhere a a\<close>
  writes the entry of a and then deletes it.
\<close>

theorem renameTagEverywhere_same_name_drops_entry:
  "getRegistry docAB ''a'' \<noteq> None \<and>
   getRegistry (fst (renameTagEverywhere ''a'' ''a'' docAB)) ''a'' = None"
  by (simp add: docAB_def renameTagEverywhere_def Let_def getRegistry_def setRegistry_def
      findAll_def rewrite_nodes_def plain_object_def lookup_def assign_def delete_key_def)

text \<open>The rename button posts a message exactly when the name typed is non-empty and new.\<close>

lemma renameBtn_onclick_posts_iff:
  "renameBtn_onclick t answer = Some m \<longleftrightarrow>
     (\<exists>new. answer = Some new \<and> new \<noteq> [] \<and> new \<noteq> t \<and> m = RenameTag t new)"
  by (cases answer) (auto simp add: renameBtn_onclick_def)

text \<open>
  The registry branch of \<open>renameTagEverywhere\<close> at a name that the registry object
  inherits: renaming \<open>toString\<close>, which is no key, makes an entry for the new name.
\<close>

lemma rename_from_inherited_name:
  "getRegistry (fst (renameTagEverywhere ''toString'' ''x'' docAB)) ''x'' = Some empty_meta"
  by (simp add: docAB_def renameTagEverywhere_def Let_def getRegistry_def setRegistry_def
      findAll_def rewrite_nodes_def plain_object_def lookup_def assign_def delete_key_def
      meta_of_empty object_prototype_names_def)

text \<open>
  C4, amended. The rename of a tag to its own name is a no-op where it is
  requested: the rename button posts no message when the name typed equals the
  tag, so the document stays as it is. The controller's \<open>renameTagEverywhere t t\<close>
  leaves the tag set of every object as it was.
\<close>

theorem rename_to_same_name_is_noop_from_ui:
  "renameBtn_onclick t (Some t) = None \<and>
   rename_from_ui t (Some t) d = d \<and>
   set (getNodeTags (fst (renameTagEverywhere t t d)) n) = set (getNodeTags d n)"
  by (simp add: rename_from_ui_def renameBtn_onclick_def renameTagEverywhere_tags
      set_normalizeTags)

section \<open>The stored form of tag lists\<close>

text \<open>
  In the single-file controller every write of a tag list goes through
  \<open>setNodeTags\<close>, so each message keeps the stored lists sorted and free of
  duplicates.
\<close>

lemma fold_keeps:
  assumes "\<And>x s. Q s \<Longrightarrow> Q (f x s)" and "Q s"
  shows "Q (fold f xs s)"
  using assms(2) by (induction xs arbitrary: s) (simp_all add: assms(1))

lemma setNodeTags_keeps: "stored_normal_form d \<Longrightarrow> stored_normal_form (setNodeTags n tags d)"
  by (simp add: stored_normal_form_def getNodeTags_setNodeTags sorted_normalizeTags
      distinct_normalizeTags)

lemma setRegistry_keeps: "stored_normal_form d \<Longrightarrow> stored_normal_form (setRegistry reg d)"
  by (simp add: stored_normal_form_def getNodeTags_setRegistry)

lemma add_keeps:
  "stored_normal_form d \<Longrightarrow> stored_normal_form (fst (addTagsToSelection tags d))"
proof -
  assume d: "stored_normal_form d"
  have "stored_normal_form (fst (fold (add_step tags) sel (d, k)))" for sel k
    by (rule fold_keeps [where Q = "\<lambda>s. stored_normal_form (fst s)"])
      (auto simp add: add_step_def Let_def setNodeTags_keeps d)
  then show ?thesis using d by (simp add: addTagsToSelection_def Let_def)
qed

lemma remove_keeps:
  "stored_normal_form d \<Longrightarrow> stored_normal_form (fst (removeTagsFromSelection tags d))"
proof -
  assume d: "stored_normal_form d"
  have "stored_normal_form (fst (fold (remove_step tags) sel (d, k)))" for sel k
    by (rule fold_keeps [where Q = "\<lambda>s. stored_normal_form (fst s)"])
      (auto simp add: remove_step_def Let_def setNodeTags_keeps d)
  then show ?thesis using d by (simp add: removeTagsFromSelection_def Let_def)
qed

lemma rewrite_nodes_keeps: "stored_normal_form d \<Longrightarrow> stored_normal_form (rewrite_nodes f ns d)"
  unfolding rewrite_nodes_def
  by (rule fold_keeps [where Q = stored_normal_form]) (simp_all add: setNodeTags_keeps)

lemma merge_node_keeps:
  "stored_normal_form d \<Longrightarrow> stored_normal_form (merge_node into fromList n d)"
  by (simp add: merge_node_def Let_def setNodeTags_keeps split: prod.splits)

lemma onmessage_keeps_normal_form:
  "stored_normal_form d \<Longrightarrow> stored_normal_form (onmessage m d)"
proof (cases m)
  case (CreateTag tag meta)
  assume "stored_normal_form d"
  then show ?thesis
    by (simp add: CreateTag ensureTagInRegistry_def Let_def setRegistry_keeps)
next
  case (DeleteTag tag)
  assume "stored_normal_form d"
  then show ?thesis
    by (simp add: DeleteTag deleteTag_def Let_def rewrite_nodes_keeps setRegistry_keeps)
next
  case (AssignTagsToSelection tags)
  assume "stored_normal_form d"
  then show ?thesis by (simp add: AssignTagsToSelection add_keeps)
next
  case (RemoveTagsFromSelection tags)
  assume "stored_normal_form d"
  then show ?thesis by (simp add: RemoveTagsFromSelection remove_keeps)
next
  case (RenameTag old new)
  assume "stored_normal_form d"
  then show ?thesis
    by (simp add: RenameTag renameTagEverywhere_def Let_def rewrite_nodes_keeps setRegistry_keeps)
next
  case (MergeTags into fromList)
  assume d: "stored_normal_form d"
  have "stored_normal_form (fold (merge_node into fromList) ns (setRegistry reg d))" for ns reg
    by (rule fold_keeps [where Q = stored_normal_form])
      (simp_all add: merge_node_keeps setRegistry_keeps d)
  then show ?thesis by (simp add: MergeTags mergeTags_def Let_def)
next
  case (FilterByTag tag)
  assume "stored_normal_form d"
  then show ?thesis
    by (simp add: FilterByTag Let_def stored_normal_form_def getNodeTags_def)
next
  case ExportCsv
  assume "stored_normal_form d"
  then show ?thesis by (simp add: ExportCsv)
next
  case UnknownMessage
  assume "stored_normal_form d"
  then show ?thesis by (simp add: UnknownMessage)
qed

lemma view_assign_new_nodes:
  "handleBulkTagOperation Add ''a'' viewB [''1''] =
     Changed ([(''1'', \<lparr>node_id = ''1'', node_name = ''Note'', node_type = ''sticky'',
                        node_tags = [''b'', ''a'']\<rparr>)], 1)"
  by (simp add: handleBulkTagOperation_def viewB_def parse_tag_list_def trim_def is_space_def
      bulk_step_def Let_def new_Set_def set_add_def)

text \<open>
  C3. The claim asks that after every mutation every stored tag list is sorted and
  free of duplicates. In the React variant the plugin code stores the list as the view
  sends it, and the view's assign does not sort: assigning a to the note tagged b
  stores b, a.
\<close>

theorem view_assign_stores_unsorted_list:
  "nodeTagsData (bulk_operation_stored Add ''a'' viewB [''1''] pluginB) ''1'' =
     Parsed [''b'', ''a''] \<and>
   \<not> sorted [''b'', ''a'']"
  unfolding bulk_operation_stored_def view_assign_new_nodes
  by (simp add: handleNodesChange_def viewB_def pluginB_def plugin_handleSetNodeTags_def)

section \<open>Loading the blobs\<close>

text \<open>The controller's loaders catch the exception: a missing or unparsable blob reads as empty.\<close>

lemma getRegistry_empty_on_bad_blob:
  "registryData d = Missing \<or> registryData d = Unparsable \<Longrightarrow> getRegistry d = Map.empty"
  by (auto simp add: getRegistry_def)

lemma getNodeTags_empty_on_bad_blob:
  "nodeData d n = Missing \<or> nodeData d n = Unparsable \<Longrightarrow> getNodeTags d n = []"
  by (auto simp add: getNodeTags_def)

lemma plugin_loaders_on_missing:
  "plugin_getTagRegistry (sb\<lparr>tagRegistryData := Missing\<rparr>) = Inr Map.empty \<and>
   plugin_getNodeTags (sb\<lparr>nodeTagsData := (nodeTagsData sb)(n := Missing)\<rparr>) n = Inr []"
  by (simp add: plugin_getTagRegistry_def plugin_getNodeTags_def)

text \<open>
  C8. The claim asks that loading a blob that does not parse gives the empty
  registry or the empty list and never an error. The loaders of the React
  variant's plugin code have no \<open>try\<close>: on such a blob both raise the
  \<open>SyntaxError\<close> of \<open>JSON.parse\<close>, which leaves the message handler.
\<close>

theorem plugin_loaders_raise_on_unparsable:
  "plugin_getTagRegistry (sb\<lparr>tagRegistryData := Unparsable\<rparr>) = Inl SyntaxError \<and>
   plugin_handleGetTagRegistry (sb\<lparr>tagRegistryData := Unparsable\<rparr>) = Inl SyntaxError \<and>
   plugin_getNodeTags (sb\<lparr>nodeTagsData := (nodeTagsData sb)(n := Unparsable)\<rparr>) n =
     Inl SyntaxError"
  by (simp add: plugin_getTagRegistry_def plugin_handleGetTagRegistry_def plugin_getNodeTags_def)

section \<open>Export\<close>

text \<open>Scenario D of the specification: the quotes of a name are doubled.\<close>

lemma exportToCSV_scenarioD:
  \<open>exportToCSV
     [(''1'', \<lparr>node_id = ''1'', node_name = ''Say "hi"'', node_type = ''text'',
               node_tags = [''a'']\<rparr>)] =
   ''nodeId,nodeName,nodeType,tags'' @ [CHR 0x0A] @ ''"1","Say ""hi""","text","a"''\<close>
  by (simp add: exportToCSV_def export_row_def double_quotes_def dquote_def)

text \<open>
  C7. The claim asks that every free-text field, the joined tags among them, is
  written with its double quotes doubled. \<open>exportToCSV\<close> and \<open>exportCSV\<close> double
  the quotes of the name only: a tag with a double quote is written as it is, and
  the field ends at that quote for a reader of the CSV.
\<close>

theorem exportToCSV_leaves_tag_quotes:
  \<open>exportToCSV
     [(''1'', \<lparr>node_id = ''1'', node_name = ''n'', node_type = ''text'',
               node_tags = [''a"b'']\<rparr>)] =
   ''nodeId,nodeName,nodeType,tags'' @ [CHR 0x0A] @ ''"1","n","text","a"b"'' \<and>
   exportCSV docQuote = ''nodeId,nodeName,tags'' @ [CHR 0x0A] @ ''1,"n","a"b"''\<close>
  by (simp add: exportToCSV_def export_row_def double_quotes_def dquote_def
      exportCSV_def csv_row_def docQuote_def findAll_def getNodeTags_def)

end
